theory Spec2Isabelle
  imports Complex_Main "HOL-Library.AList"
begin

section \<open>The user data writer of the Firestore client\<close>

text \<open>
  A shallow embedding of \<^verbatim>\<open>packages/firestore/src/api/user_data_writer.ts\<close>: the abstract
  class \<^verbatim>\<open>AbstractUserDataWriter\<close>, which converts the wire representation of a field
  value into the value handed to the user, and its three concrete subclasses.

  An exception of the source is a value \<open>Inl\<close> of a sum type. A call of \<^verbatim>\<open>logError\<close> appends
  to a list of messages, which every conversion returns beside its outcome: the outcome of
  a conversion is a pair of the value or the fault, and the messages logged on the way (also
  the ones logged before a fault).
\<close>

subsection \<open>JavaScript values\<close>

text \<open>
  A JavaScript number is an IEEE double: a finite value, one of the two infinities, the
  negative zero or NaN. No arithmetic is done on numbers here; what the code depends on is
  which numbers are falsy.
\<close>

datatype js_number = Finite real | NegZero | PosInfinity | NegInfinity | NaN

text \<open>The type \<^verbatim>\<open>string | number\<close> of the numeric fields of a wire value.\<close>

datatype js_numeric = JNumber js_number | JString string

text \<open>
  Truthiness of a value of type \<^verbatim>\<open>string | number | undefined\<close> (\<open>None\<close> is
  \<^verbatim>\<open>undefined\<close>): \<^verbatim>\<open>undefined\<close>, the zeros, NaN and the empty string are falsy.
\<close>

fun truthy :: "js_numeric option \<Rightarrow> bool" where
  "truthy None = False"
| "truthy (Some (JNumber (Finite x))) = (x \<noteq> 0)"
| "truthy (Some (JNumber NegZero)) = False"
| "truthy (Some (JNumber NaN)) = False"
| "truthy (Some (JNumber PosInfinity)) = True"
| "truthy (Some (JNumber NegInfinity)) = True"
| "truthy (Some (JString s)) = (s \<noteq> [])"

text \<open>The operator \<^verbatim>\<open>a || b\<close>: \<open>a\<close> when it is truthy, \<open>b\<close> otherwise.\<close>

definition js_or :: "js_numeric option \<Rightarrow> js_numeric option \<Rightarrow> js_numeric option" where
  "js_or a b = (if truthy a then a else b)"

text \<open>A string or \<^verbatim>\<open>undefined\<close> inside a template literal.\<close>

fun template :: "string option \<Rightarrow> string" where
  "template None = ''undefined''"
| "template (Some s) = s"

subsection \<open>Faults and the log\<close>

text \<open>
  \<^verbatim>\<open>fail(msg)\<close> throws, and \<^verbatim>\<open>hardAssert(cond, msg)\<close> throws when the condition is false;
  both raise the same internal assertion error, carrying the message.
\<close>

datatype fault = Fail string

type_synonym 'a result = "(fault + 'a) \<times> string list"

subsection \<open>Wire values\<close>

text \<open>
  Modelled from the spec: the declaration of the wire value
  (\<^verbatim>\<open>protos/firestore_proto_api\<close>) is not among the sources. The spec's data model makes it
  a tagged union with exactly one populated variant; the constructors carry the names of
  the fields the source reads. The number variant is populated either in its
  \<^verbatim>\<open>integerValue\<close> or in its \<^verbatim>\<open>doubleValue\<close> field. \<open>InvalidValue\<close> is a value without
  any recognized tag. The wire form of a byte sequence (\<open>'b\<close>) is only handed to
  collaborators and stays abstract.

  The wire form of a timestamp is an object \<^verbatim>\<open>{seconds, nanos}\<close>, whose properties may be
  absent and whose \<^verbatim>\<open>seconds\<close> may be a number or a decimal string, as the numeric fields
  of a value are; the wire format also has a string form. Both are looked into by
  \<^verbatim>\<open>normalizeTimestamp\<close> only.

  The element list of an array and the field set of a map are optional
  (\<^verbatim>\<open>arrayValue.values || []\<close>, \<^verbatim>\<open>mapValue.fields || {}\<close>). The fields of a map are the
  entries of a JavaScript object in its iteration order.

  A server timestamp wrapper carries its local write time and, optionally, the value it
  replaces.
\<close>

record LatLng =
  latitude :: "js_number option"
  longitude :: "js_number option"

datatype ProtoTimestamp =
    TimestampString string
  | TimestampObject "js_numeric option" "js_number option"

datatype 'b Value =
    NullValue
  | BooleanValue bool
  | IntegerValue js_numeric
  | DoubleValue js_numeric
  | TimestampValue ProtoTimestamp
  | ServerTimestampValue "'b ServerTimestamp"
  | StringValue string
  | BytesValue 'b
  | ReferenceValue string
  | GeoPointValue LatLng
  | ArrayValue "'b ProtoArrayValue"
  | MapValue "'b ProtoMapValue"
  | InvalidValue
and 'b ServerTimestamp =
    ServerTimestamp (st_localWriteTime: ProtoTimestamp) (st_previousValue: "'b Value option")
and 'b ProtoArrayValue =
    ProtoArrayValue (values_opt: "'b Value list option")
and 'b ProtoMapValue =
    ProtoMapValue (fields_opt: "(string \<times> 'b Value) list option")

text \<open>The fields \<^verbatim>\<open>value.integerValue\<close> and \<^verbatim>\<open>value.doubleValue\<close>, absent when not populated.\<close>

fun integerValue :: "'b Value \<Rightarrow> js_numeric option" where
  "integerValue (IntegerValue p) = Some p"
| "integerValue _ = None"

fun doubleValue :: "'b Value \<Rightarrow> js_numeric option" where
  "doubleValue (DoubleValue p) = Some p"
| "doubleValue _ = None"

text \<open>
  Modelled from the spec: \<^verbatim>\<open>getPreviousValue\<close> (\<^verbatim>\<open>model/server_timestamps\<close>) gives the
  value a server timestamp wrapper replaces, when it carries one.
\<close>

definition getPreviousValue :: "'b ServerTimestamp \<Rightarrow> 'b Value option" where
  "getPreviousValue st = st_previousValue st"

subsection \<open>Paths, keys and database identities\<close>

text \<open>
  Modelled from the spec: a resource path is its list of segments. \<^verbatim>\<open>get(i)\<close> reads a
  segment (\<^verbatim>\<open>undefined\<close> out of range, as a JavaScript array read), \<^verbatim>\<open>popFirst(n)\<close> strips
  the leading \<open>n\<close> segments, and a path prints as its segments joined by a slash.
\<close>

type_synonym ResourcePath = "string list"

definition get :: "ResourcePath \<Rightarrow> nat \<Rightarrow> string option" where
  "get path i = (if i < length path then Some (path ! i) else None)"

definition popFirst :: "nat \<Rightarrow> ResourcePath \<Rightarrow> ResourcePath" where
  "popFirst n path = drop n path"

fun canonicalString :: "ResourcePath \<Rightarrow> string" where
  "canonicalString [] = []"
| "canonicalString [s] = s"
| "canonicalString (s # t # ss) = s @ ''/'' @ canonicalString (t # ss)"

datatype DocumentKey = DocumentKey (path: ResourcePath)

record DatabaseId =
  projectId :: "string option"
  database :: "string option"

text \<open>\<^verbatim>\<open>databaseId.isEqual(other)\<close>: equality of the two identifiers.\<close>

definition isEqual :: "DatabaseId \<Rightarrow> DatabaseId \<Rightarrow> bool" where
  "isEqual d e = (projectId d = projectId e \<and> database d = database e)"

subsection \<open>Decoded values\<close>

text \<open>The client instance a writer is bound to; the writer reads its \<^verbatim>\<open>_databaseId\<close>.\<close>

record Firestore =
  databaseId :: DatabaseId

type_synonym ByteString = string

datatype NormalizedTimestamp = NormalizedTimestamp (seconds: js_number) (nanos: js_number)

text \<open>
  The native timestamp, \<^verbatim>\<open>new Timestamp(seconds, nanoseconds)\<close>. Its properties are
  \<^verbatim>\<open>seconds\<close> and \<^verbatim>\<open>nanoseconds\<close>; it has no property \<^verbatim>\<open>nanos\<close>. So where a native
  timestamp is handed to a function that expects the wire form, that function finds the
  seconds under \<^verbatim>\<open>seconds\<close> and nothing under \<^verbatim>\<open>nanos\<close>.
\<close>

datatype Timestamp = Timestamp js_number js_number

fun timestampAsProto :: "Timestamp \<Rightarrow> ProtoTimestamp" where
  "timestampAsProto (Timestamp s n) = TimestampObject (Some (JNumber s)) None"

datatype GeoPoint = GeoPoint js_number js_number

text \<open>The two blob types and the three reference handles of the concrete writers.\<close>

datatype blob = Blob ByteString | Bytes ByteString

datatype reference =
    DocumentReference DocumentKey Firestore "unit option"
  | ExpDocumentReference Firestore "unit option" DocumentKey
  | LiteDocumentReference Firestore "unit option" DocumentKey

text \<open>
  A record is a JavaScript object: its own properties in the order of their creation, and
  its prototype, which is \<^verbatim>\<open>Object.prototype\<close> for the \<^verbatim>\<open>{}\<close> that \<^verbatim>\<open>convertObject\<close>
  starts from, unless an assignment to \<^verbatim>\<open>__proto__\<close> has replaced it by null or by another
  object.
\<close>

datatype 'a prototype = ObjectPrototype | NullPrototype | ReplacedBy 'a

datatype decoded =
    DNull
  | DBoolean bool
  | DNumber js_number
  | DTimestamp Timestamp
  | DString string
  | DBytes blob
  | DReference reference
  | DGeoPoint GeoPoint
  | DArray "decoded list"
  | DObject "(string \<times> decoded) list" "decoded prototype"

type_synonym js_object = "(string \<times> decoded) list \<times> decoded prototype"

text \<open>Whether a decoded value is a JavaScript object (null and the primitives are not).\<close>

fun isObject :: "decoded \<Rightarrow> bool" where
  "isObject DNull = False"
| "isObject (DBoolean v) = False"
| "isObject (DNumber n) = False"
| "isObject (DString s) = False"
| "isObject _ = True"

subsection \<open>Collaborators\<close>

text \<open>
  The functions the class imports and that are not among the sources are parameters of
  the embedding: the normalisation of numbers, timestamps and byte strings
  (\<^verbatim>\<open>model/values\<close>), the parser of resource paths (\<^verbatim>\<open>ResourcePath.fromString\<close>, which may
  throw), the validity check of resource names (\<^verbatim>\<open>remote/serializer\<close>) and
  \<^verbatim>\<open>JSON.stringify\<close>.

  \<open>setThroughPrototype\<close> is what an assignment \<^verbatim>\<open>result[key] = x\<close> does to an object that
  has no own property \<open>key\<close> and whose prototype has been replaced by a decoded value: it
  depends on the properties that value and its class define (an accessor without a setter
  makes the assignment throw), and the classes of the decoded values are not among the
  sources.
\<close>

record 'b collaborators =
  normalizeNumber :: "js_numeric option \<Rightarrow> js_number"
  normalizeTimestamp :: "ProtoTimestamp \<Rightarrow> NormalizedTimestamp"
  normalizeByteString :: "'b \<Rightarrow> ByteString"
  fromString :: "string \<Rightarrow> fault + ResourcePath"
  isValidResourceName :: "ResourcePath \<Rightarrow> bool"
  stringify :: "'b Value \<Rightarrow> string"
  setThroughPrototype :: "decoded \<Rightarrow> string \<Rightarrow> decoded \<Rightarrow> js_object \<Rightarrow> fault + js_object"

text \<open>The two abstract methods of \<^verbatim>\<open>AbstractUserDataWriter\<close>.\<close>

record writer =
  convertReference :: "string \<Rightarrow> reference result"
  convertBytes :: "ByteString \<Rightarrow> blob"

datatype ServerTimestampBehavior = estimate | previous | none

subsection \<open>AbstractUserDataWriter\<close>

text \<open>
  \<^verbatim>\<open>getLocalWriteTime\<close> (\<^verbatim>\<open>model/server_timestamps\<close>, not among the sources) gives the
  local write time of a server timestamp wrapper as a native timestamp: it normalises the
  wire timestamp of the wrapper and builds \<^verbatim>\<open>new Timestamp(seconds, nanos)\<close> from it.
\<close>

definition getLocalWriteTime :: "'b collaborators \<Rightarrow> 'b ServerTimestamp \<Rightarrow> Timestamp" where
  "getLocalWriteTime env st =
     (let localWriteTime = normalizeTimestamp env (st_localWriteTime st)
      in Timestamp (seconds localWriteTime) (nanos localWriteTime))"

definition convertTimestamp :: "'b collaborators \<Rightarrow> ProtoTimestamp \<Rightarrow> Timestamp" where
  "convertTimestamp env v =
     (let normalizedValue = normalizeTimestamp env v
      in Timestamp (seconds normalizedValue) (nanos normalizedValue))"

definition convertGeoPoint :: "'b collaborators \<Rightarrow> LatLng \<Rightarrow> GeoPoint" where
  "convertGeoPoint env v =
     GeoPoint (normalizeNumber env (map_option JNumber (latitude v)))
              (normalizeNumber env (map_option JNumber (longitude v)))"

text \<open>
  \<^verbatim>\<open>convertDocumentKey\<close>: parse the name, assert that it is a valid resource name, read the
  database identity at segments 1 and 3, build the key from the path without its first
  five segments, and log (without failing) when the identity is not the expected one.
\<close>

definition convertDocumentKey ::
  "'b collaborators \<Rightarrow> string \<Rightarrow> DatabaseId \<Rightarrow> DocumentKey result" where
  "convertDocumentKey env name expectedDatabaseId =
     (case fromString env name of
        Inl e \<Rightarrow> (Inl e, [])
      | Inr resourcePath \<Rightarrow>
          if \<not> isValidResourceName env resourcePath
          then (Inl (Fail (''ReferenceValue is not valid '' @ name)), [])
          else
            let dbId = \<lparr>projectId = get resourcePath 1, database = get resourcePath 3\<rparr>;
                key = DocumentKey (popFirst 5 resourcePath)
            in if \<not> isEqual dbId expectedDatabaseId
               then (Inr key,
                     [''Document '' @ canonicalString (path key) @ '' contains a document '' @
                      ''reference within a different database ('' @
                      template (projectId dbId) @ ''/'' @ template (database dbId) @
                      '') which is not '' @
                      ''supported. It will be treated as a reference in the current '' @
                      ''database ('' @ template (projectId expectedDatabaseId) @ ''/'' @
                      template (database expectedDatabaseId) @ '') '' @
                      ''instead.''])
               else (Inr key, []))"

text \<open>
  The assignment \<^verbatim>\<open>result[key] = x\<close> of \<^verbatim>\<open>convertObject\<close>. An own property \<open>key\<close> gets the
  new value. Otherwise the property is looked up along the prototype chain. Under
  \<^verbatim>\<open>Object.prototype\<close> the only property that is not a writable data property is the
  accessor \<^verbatim>\<open>__proto__\<close>: its setter replaces the prototype when \<open>x\<close> is null or an object,
  does nothing when \<open>x\<close> is a primitive, and creates no own property; every other key
  becomes a new own property. Under the null prototype every key becomes a new own
  property.
\<close>

definition assign :: "'b collaborators \<Rightarrow> string \<Rightarrow> decoded \<Rightarrow> js_object \<Rightarrow> fault + js_object" where
  "assign env key x result =
     (case result of (entries, proto) \<Rightarrow>
        if key \<in> fst ` set entries then Inr (AList.update key x entries, proto)
        else
          (case proto of
             ObjectPrototype \<Rightarrow>
               if key = ''__proto__''
               then Inr (entries,
                         if x = DNull then NullPrototype
                         else if isObject x then ReplacedBy x
                         else ObjectPrototype)
               else Inr (AList.update key x entries, proto)
           | NullPrototype \<Rightarrow> Inr (AList.update key x entries, proto)
           | ReplacedBy p \<Rightarrow> setThroughPrototype env p key x result))"

text \<open>
  \<^verbatim>\<open>convertValue\<close> and the private methods it is mutually recursive with. The dispatch on
  \<^verbatim>\<open>typeOrder(value)\<close> is the case distinction on the populated variant; a value without a
  recognized tag reaches \<^verbatim>\<open>fail\<close>. \<open>convertValues\<close> is the callback of
  \<^verbatim>\<open>Array.prototype.map\<close> in \<^verbatim>\<open>convertArray\<close> run over the elements in order, and
  \<open>convertFields\<close> is the callback of \<^verbatim>\<open>forEach\<close> in \<^verbatim>\<open>convertObject\<close> run over the entries,
  assigning into the object built so far. An exception in a callback ends the loop.
\<close>

function (sequential) convertValue ::
    "writer \<Rightarrow> 'b collaborators \<Rightarrow> 'b Value \<Rightarrow> ServerTimestampBehavior \<Rightarrow> decoded result"
  and convertServerTimestamp ::
    "writer \<Rightarrow> 'b collaborators \<Rightarrow> 'b ServerTimestamp \<Rightarrow> ServerTimestampBehavior
      \<Rightarrow> decoded result"
  and convertArray ::
    "writer \<Rightarrow> 'b collaborators \<Rightarrow> 'b ProtoArrayValue \<Rightarrow> ServerTimestampBehavior
      \<Rightarrow> decoded list result"
  and convertObject ::
    "writer \<Rightarrow> 'b collaborators \<Rightarrow> 'b ProtoMapValue \<Rightarrow> ServerTimestampBehavior
      \<Rightarrow> js_object result"
  and convertValues ::
    "writer \<Rightarrow> 'b collaborators \<Rightarrow> 'b Value list \<Rightarrow> ServerTimestampBehavior
      \<Rightarrow> decoded list result"
  and convertFields ::
    "writer \<Rightarrow> 'b collaborators \<Rightarrow> (string \<times> 'b Value) list \<Rightarrow> ServerTimestampBehavior
      \<Rightarrow> js_object \<Rightarrow> js_object result"
where
  "convertValue w env NullValue b = (Inr DNull, [])"
| "convertValue w env (BooleanValue v) b = (Inr (DBoolean v), [])"
| "convertValue w env (IntegerValue p) b =
     (Inr (DNumber (normalizeNumber env
        (js_or (integerValue (IntegerValue p :: 'b Value))
               (doubleValue (IntegerValue p :: 'b Value))))), [])"
| "convertValue w env (DoubleValue p) b =
     (Inr (DNumber (normalizeNumber env
        (js_or (integerValue (DoubleValue p :: 'b Value))
               (doubleValue (DoubleValue p :: 'b Value))))), [])"
| "convertValue w env (TimestampValue t) b = (Inr (DTimestamp (convertTimestamp env t)), [])"
| "convertValue w env (ServerTimestampValue st) b = convertServerTimestamp w env st b"
| "convertValue w env (StringValue s) b = (Inr (DString s), [])"
| "convertValue w env (BytesValue bs) b =
     (Inr (DBytes (convertBytes w (normalizeByteString env bs))), [])"
| "convertValue w env (ReferenceValue name) b =
     (case convertReference w name of
        (Inl e, l) \<Rightarrow> (Inl e, l)
      | (Inr r, l) \<Rightarrow> (Inr (DReference r), l))"
| "convertValue w env (GeoPointValue g) b = (Inr (DGeoPoint (convertGeoPoint env g)), [])"
| "convertValue w env (ArrayValue a) b =
     (case convertArray w env a b of
        (Inl e, l) \<Rightarrow> (Inl e, l)
      | (Inr xs, l) \<Rightarrow> (Inr (DArray xs), l))"
| "convertValue w env (MapValue m) b =
     (case convertObject w env m b of
        (Inl e, l) \<Rightarrow> (Inl e, l)
      | (Inr (entries, proto), l) \<Rightarrow> (Inr (DObject entries proto), l))"
| "convertValue w env InvalidValue b =
     (Inl (Fail (''Invalid value type: '' @ stringify env InvalidValue)), [])"
| "convertServerTimestamp w env (ServerTimestamp t prev) b =
     (case b of
        previous \<Rightarrow>
          (case getPreviousValue (ServerTimestamp t prev) of
             None \<Rightarrow> (Inr DNull, [])
           | Some previousValue \<Rightarrow> convertValue w env previousValue b)
      | estimate \<Rightarrow>
          (Inr (DTimestamp (convertTimestamp env
             (timestampAsProto (getLocalWriteTime env (ServerTimestamp t prev))))), [])
      | none \<Rightarrow> (Inr DNull, []))"
| "convertArray w env (ProtoArrayValue None) b = convertValues w env [] b"
| "convertArray w env (ProtoArrayValue (Some vs)) b = convertValues w env vs b"
| "convertObject w env (ProtoMapValue None) b = convertFields w env [] b ([], ObjectPrototype)"
| "convertObject w env (ProtoMapValue (Some fs)) b =
     convertFields w env fs b ([], ObjectPrototype)"
| "convertValues w env [] b = (Inr [], [])"
| "convertValues w env (v # vs) b =
     (case convertValue w env v b of
        (Inl e, l) \<Rightarrow> (Inl e, l)
      | (Inr x, l) \<Rightarrow>
          (case convertValues w env vs b of
             (Inl e, l') \<Rightarrow> (Inl e, l @ l')
           | (Inr xs, l') \<Rightarrow> (Inr (x # xs), l @ l')))"
| "convertFields w env [] b result = (Inr result, [])"
| "convertFields w env ((key, v) # fs) b result =
     (case convertValue w env v b of
        (Inl e, l) \<Rightarrow> (Inl e, l)
      | (Inr x, l) \<Rightarrow>
          (case assign env key x result of
             Inl e \<Rightarrow> (Inl e, l)
           | Inr result' \<Rightarrow>
               (case convertFields w env fs b result' of
                  (r, l') \<Rightarrow> (r, l @ l'))))"

  by pat_completeness auto

text \<open>
  Every call descends into a part of the wire value: the measure is the size of the value,
  wrapper, array, map, element list or entry list in hand.
\<close>

termination
  apply (relation "measure (case_sum
     (case_sum (\<lambda>(w, env, v, b). size v)
        (case_sum (\<lambda>(w, env, st, b). size st) (\<lambda>(w, env, a, b). size a)))
     (case_sum (\<lambda>(w, env, m, b). size m)
        (case_sum (\<lambda>(w, env, vs, b). size_list size vs)
           (\<lambda>(w, env, fs, b, r). size_list (size_prod (\<lambda>_. 0) size) fs))))")
  apply (auto simp: getPreviousValue_def)
  done

text \<open>A call of \<^verbatim>\<open>convertValue\<close> that leaves the policy out: the default is \<^verbatim>\<open>'none'\<close>.\<close>

definition convertValueDefault ::
  "writer \<Rightarrow> 'b collaborators \<Rightarrow> 'b Value \<Rightarrow> decoded result" where
  "convertValueDefault w env v = convertValue w env v none"

subsection \<open>The three concrete writers\<close>

definition convertReferenceWith ::
  "(DocumentKey \<Rightarrow> reference) \<Rightarrow> 'b collaborators \<Rightarrow> Firestore \<Rightarrow> string \<Rightarrow> reference result" where
  "convertReferenceWith mk env firestore name =
     (case convertDocumentKey env name (databaseId firestore) of
        (Inl e, l) \<Rightarrow> (Inl e, l)
      | (Inr key, l) \<Rightarrow> (Inr (mk key), l))"

definition UserDataWriter :: "'b collaborators \<Rightarrow> Firestore \<Rightarrow> writer" where
  "UserDataWriter env firestore =
     \<lparr>convertReference =
        convertReferenceWith (\<lambda>key. DocumentReference key firestore None) env firestore,
      convertBytes = Blob\<rparr>"

definition ExpUserDataWriter :: "'b collaborators \<Rightarrow> Firestore \<Rightarrow> writer" where
  "ExpUserDataWriter env firestore =
     \<lparr>convertReference =
        convertReferenceWith (\<lambda>key. ExpDocumentReference firestore None key) env firestore,
      convertBytes = Bytes\<rparr>"

definition LiteUserDataWriter :: "'b collaborators \<Rightarrow> Firestore \<Rightarrow> writer" where
  "LiteUserDataWriter env firestore =
     \<lparr>convertReference =
        convertReferenceWith (\<lambda>key. LiteDocumentReference firestore None key) env firestore,
      convertBytes = Bytes\<rparr>"

section \<open>Notions used in the properties\<close>

text \<open>
  The value a chain of server timestamp wrappers ends in, in the spec's words: follow the
  previous values while the value in hand is a wrapper; \<open>None\<close> when the chain ends in a
  wrapper without a previous value.
\<close>

fun resolvePrevious :: "'b Value \<Rightarrow> 'b Value option" where
  "resolvePrevious (ServerTimestampValue (ServerTimestamp t None)) = None"
| "resolvePrevious (ServerTimestampValue (ServerTimestamp t (Some v))) = resolvePrevious v"
| "resolvePrevious v = Some v"

fun isServerTimestamp :: "'b Value \<Rightarrow> bool" where
  "isServerTimestamp (ServerTimestampValue st) = True"
| "isServerTimestamp _ = False"

text \<open>Whether a server timestamp wrapper stands anywhere in the tree of a value.\<close>

fun containsServerTimestamp :: "'b Value \<Rightarrow> bool" where
  "containsServerTimestamp (ServerTimestampValue st) = True"
| "containsServerTimestamp (ArrayValue (ProtoArrayValue None)) = False"
| "containsServerTimestamp (ArrayValue (ProtoArrayValue (Some vs))) =
     list_ex containsServerTimestamp vs"
| "containsServerTimestamp (MapValue (ProtoMapValue None)) = False"
| "containsServerTimestamp (MapValue (ProtoMapValue (Some fs))) =
     list_ex (\<lambda>(k, v). containsServerTimestamp v) fs"
| "containsServerTimestamp _ = False"

subsection \<open>An instance of the collaborators\<close>

text \<open>
  Modelled from the spec: an instance of the collaborators, on which the writer is run on
  concrete inputs. A resource name is split into its segments at the separator, and a
  valid document resource name has the shape
  \<^verbatim>\<open>projects/P/databases/D/documents/...\<close>. The wire form of a byte sequence is a string.

  The normalisation of the instance is not from the spec, which leaves it open: a number
  normalises to itself, a string of decimal digits to the number it denotes, and an absent
  payload to zero, as \<^verbatim>\<open>normalizeNumber\<close> of the repository does; the instance gives NaN for
  every other string but the empty one. A timestamp object normalises to
  its normalised seconds and nanos; the instance does not parse the string form. An
  assignment through a replaced prototype creates the own property.
\<close>

definition digitValue :: "char \<Rightarrow> nat option" where
  "digitValue c =
     (let code = (of_char c :: nat)
      in if 48 \<le> code \<and> code \<le> 57 then Some (code - 48) else None)"

fun parseDecimal :: "nat \<Rightarrow> string \<Rightarrow> nat option" where
  "parseDecimal acc [] = Some acc"
| "parseDecimal acc (c # cs) =
     (case digitValue c of None \<Rightarrow> None | Some d \<Rightarrow> parseDecimal (10 * acc + d) cs)"

fun exampleNormalizeNumber :: "js_numeric option \<Rightarrow> js_number" where
  "exampleNormalizeNumber None = Finite 0"
| "exampleNormalizeNumber (Some (JNumber n)) = n"
| "exampleNormalizeNumber (Some (JString s)) =
     (if s = [] then Finite 0
      else (case parseDecimal 0 s of Some n \<Rightarrow> Finite (real n) | None \<Rightarrow> NaN))"

fun exampleNormalizeTimestamp :: "ProtoTimestamp \<Rightarrow> NormalizedTimestamp" where
  "exampleNormalizeTimestamp (TimestampString s) = NormalizedTimestamp NaN NaN"
| "exampleNormalizeTimestamp (TimestampObject s n) =
     NormalizedTimestamp (exampleNormalizeNumber s) (exampleNormalizeNumber (map_option JNumber n))"

fun splitSegments :: "string \<Rightarrow> string list" where
  "splitSegments [] = [[]]"
| "splitSegments (c # cs) =
     (if c = CHR ''/'' then [] # splitSegments cs
      else (case splitSegments cs of [] \<Rightarrow> [[c]] | s # ss \<Rightarrow> (c # s) # ss))"

definition isDocumentResourceName :: "ResourcePath \<Rightarrow> bool" where
  "isDocumentResourceName p =
     (5 \<le> length p \<and> p ! 0 = ''projects'' \<and> p ! 2 = ''databases'' \<and> p ! 4 = ''documents'')"

definition exampleCollaborators :: "string collaborators" where
  "exampleCollaborators =
     \<lparr>normalizeNumber = exampleNormalizeNumber,
      normalizeTimestamp = exampleNormalizeTimestamp,
      normalizeByteString = (\<lambda>bs. bs),
      fromString = (\<lambda>name. Inr (splitSegments name)),
      isValidResourceName = isDocumentResourceName,
      stringify = (\<lambda>v. ''{}''),
      setThroughPrototype = (\<lambda>p key x (entries, proto). Inr (AList.update key x entries, proto))\<rparr>"

definition exampleFirestore :: Firestore where
  "exampleFirestore = \<lparr>databaseId = \<lparr>projectId = Some ''P'', database = Some ''D''\<rparr>\<rparr>"

section \<open>Properties\<close>

subsection \<open>Server timestamps\<close>

text \<open>
  C3. Under the policy \<^verbatim>\<open>'previous'\<close> a server timestamp wrapper without a previous value
  decodes to null, and a wrapper with the previous value \<open>v\<close> decodes as \<open>v\<close> does under the
  same policy. So every value decodes as the value its chain of wrappers ends in does, and
  to null when the chain ends in a wrapper without a previous value; the value a chain
  ends in is never a wrapper.
\<close>

theorem convertServerTimestamp_previous:
  "convertValue w env (ServerTimestampValue (ServerTimestamp t None)) previous = (Inr DNull, [])
   \<and> convertValue w env (ServerTimestampValue (ServerTimestamp t (Some v))) previous
       = convertValue w env v previous
   \<and> convertValue w env u previous
       = (case resolvePrevious u of
            None \<Rightarrow> (Inr DNull, [])
          | Some c \<Rightarrow> convertValue w env c previous)
   \<and> (case resolvePrevious u of None \<Rightarrow> True | Some c \<Rightarrow> \<not> isServerTimestamp c)"
proof -
  have chain: "convertValue w env u previous
       = (case resolvePrevious u of
            None \<Rightarrow> (Inr DNull, [])
          | Some c \<Rightarrow> convertValue w env c previous)"
    by (induction u rule: resolvePrevious.induct) (simp_all add: getPreviousValue_def)
  have concrete: "case resolvePrevious u of None \<Rightarrow> True | Some c \<Rightarrow> \<not> isServerTimestamp c"
    by (induction u rule: resolvePrevious.induct) simp_all
  show ?thesis
    using chain concrete by (simp add: getPreviousValue_def)
qed

text \<open>
  C4. Under the policy \<^verbatim>\<open>'none'\<close>, which is also the policy of a call that gives none, a
  server timestamp wrapper decodes to null and logs nothing, whatever its previous value.
\<close>

theorem convertServerTimestamp_none:
  "convertValue w env (ServerTimestampValue (ServerTimestamp t prev)) none = (Inr DNull, [])
   \<and> convertValueDefault w env (ServerTimestampValue (ServerTimestamp t prev)) = (Inr DNull, [])"
  by (simp add: convertValueDefault_def)

text \<open>
  C5. The claim is that under the policy \<^verbatim>\<open>'estimate'\<close> a server timestamp wrapper decodes
  to the native timestamp equal to its local write time. The code hands the native
  timestamp that \<^verbatim>\<open>getLocalWriteTime\<close> returns to \<^verbatim>\<open>convertTimestamp\<close>, which normalises
  it once more as if it were a wire timestamp: \<^verbatim>\<open>normalizeTimestamp\<close> receives the seconds
  of the write time and no nanos. So the result does not depend on the nanoseconds of the
  write time: the write time of 5 seconds and 7 nanoseconds decodes to the timestamp of 5
  seconds and 0 nanoseconds, whereas the timestamp value with the same wire timestamp
  keeps its 7 nanoseconds. (The previous value \<open>prev\<close> does not occur in the result.)
\<close>

theorem convertServerTimestamp_estimate_drops_nanos:
  "convertValue w env (ServerTimestampValue (ServerTimestamp t prev)) estimate
     = (Inr (DTimestamp (convertTimestamp env
          (TimestampObject (Some (JNumber (seconds (normalizeTimestamp env t)))) None))), [])
   \<and> convertValue (UserDataWriter exampleCollaborators exampleFirestore) exampleCollaborators
        (ServerTimestampValue (ServerTimestamp
           (TimestampObject (Some (JNumber (Finite 5))) (Some (Finite 7))) None)) estimate
     = (Inr (DTimestamp (Timestamp (Finite 5) (Finite 0))), [])
   \<and> convertValue (UserDataWriter exampleCollaborators exampleFirestore) exampleCollaborators
        (TimestampValue (TimestampObject (Some (JNumber (Finite 5))) (Some (Finite 7))))
        estimate
     = (Inr (DTimestamp (Timestamp (Finite 5) (Finite 7))), [])"
  by (simp add: convertTimestamp_def getLocalWriteTime_def Let_def exampleCollaborators_def)

subsection \<open>Arrays\<close>

text \<open>
  C9. An array value whose element list is absent decodes to the empty sequence, without
  a fault and without a log entry, under every policy.
\<close>

theorem convertArray_absent_values:
  "convertValue w env (ArrayValue (ProtoArrayValue None)) b = (Inr (DArray []), [])"
  by simp

text \<open>
  The loop over the elements succeeds exactly when every element decodes, and then returns
  the decoded elements in order and has logged what the elements logged, in order.
\<close>

lemma convertValues_Inr_iff:
  "fst (convertValues w env vs b) = Inr xs
     \<longleftrightarrow> list_all2 (\<lambda>v x. fst (convertValue w env v b) = Inr x) vs xs"
proof (induction vs arbitrary: xs)
  case Nil
  show ?case by auto
next
  case (Cons v vs)
  show ?case
  proof (cases "convertValue w env v b")
    case (Pair o1 l1)
    note p1 = this
    show ?thesis
    proof (cases o1)
      case (Inl e)
      with p1 show ?thesis by (auto simp: list_all2_Cons1)
    next
      case (Inr x)
      show ?thesis
      proof (cases "convertValues w env vs b")
        case (Pair o2 l2)
        with p1 Inr Cons.IH show ?thesis
          by (cases o2) (auto simp: list_all2_Cons1)
      qed
    qed
  qed
qed

lemma convertValues_log:
  "fst (convertValues w env vs b) = Inr xs \<Longrightarrow>
     snd (convertValues w env vs b) = concat (map (\<lambda>v. snd (convertValue w env v b)) vs)"
  by (induction vs arbitrary: xs) (auto split: prod.splits sum.splits)

lemma convertArray_Inr_iff:
  "fst (convertValue w env (ArrayValue (ProtoArrayValue (Some vs))) b) = Inr r
   \<longleftrightarrow> (\<exists>xs. r = DArray xs \<and> fst (convertValues w env vs b) = Inr xs)"
  by (cases "convertValues w env vs b") (auto split: sum.splits)

text \<open>
  C7. Decoding an array of the elements \<open>vs\<close> under a policy \<open>b\<close> yields \<open>r\<close> exactly when
  \<open>r\<close> is a sequence as long as \<open>vs\<close> whose element at every index is what decoding the
  element of \<open>vs\<close> at that index, on its own and under the same policy, yields. (So the
  array decodes exactly when each of its elements does.)
\<close>

theorem convertArray_elementwise:
  "fst (convertValue w env (ArrayValue (ProtoArrayValue (Some vs))) b) = Inr r
   \<longleftrightarrow> (\<exists>xs. r = DArray xs \<and> length xs = length vs
           \<and> (\<forall>i<length vs. fst (convertValue w env (vs ! i) b) = Inr (xs ! i)))"
  unfolding convertArray_Inr_iff convertValues_Inr_iff list_all2_conv_all_nth
  by (rule arg_cong [where f = Ex]) auto

theorem convertArray_elementwise_witness:
  "fst (convertValue (UserDataWriter exampleCollaborators exampleFirestore) exampleCollaborators
          (ArrayValue (ProtoArrayValue (Some [BooleanValue True, StringValue ''a'', NullValue])))
          previous)
     = Inr (DArray [DBoolean True, DString ''a'', DNull])
   \<and> length [DBoolean True, DString ''a'', DNull]
       = length [BooleanValue True, StringValue ''a'', NullValue :: string Value]
   \<and> fst (convertValue (UserDataWriter exampleCollaborators exampleFirestore)
            exampleCollaborators (StringValue ''a'') previous)
       = Inr ([DBoolean True, DString ''a'', DNull] ! 1)"
  using convertArray_elementwise
    [of "UserDataWriter exampleCollaborators exampleFirestore" exampleCollaborators
        "[BooleanValue True, StringValue ''a'', NullValue]" previous
        "DArray [DBoolean True, DString ''a'', DNull]"]
  by simp

subsection \<open>Maps\<close>

lemma update_fresh_key:
  "k \<notin> fst ` set al \<Longrightarrow> AList.update k x al = al @ [(k, x)]"
  by (induction al) auto

text \<open>
  On an object with the prototype \<^verbatim>\<open>Object.prototype\<close>, the assignment to a key that is
  neither an own property nor \<^verbatim>\<open>__proto__\<close> appends the property.
\<close>

lemma assign_plain:
  "k \<notin> fst ` set acc \<Longrightarrow> k \<noteq> ''__proto__'' \<Longrightarrow>
     assign env k x (acc, ObjectPrototype) = Inr (acc @ [(k, x)], ObjectPrototype)"
  by (simp add: assign_def update_fresh_key)

text \<open>
  The loop over the entries of an object, whose keys are distinct, not yet in the object
  under construction and other than \<^verbatim>\<open>__proto__\<close>, succeeds exactly when every field value
  decodes, and then has appended one entry per field, in order.
\<close>

lemma convertFields_Inr_iff:
  "distinct (map fst fs) \<Longrightarrow> ''__proto__'' \<notin> fst ` set fs \<Longrightarrow>
   fst ` set acc \<inter> fst ` set fs = {} \<Longrightarrow>
   fst (convertFields w env fs b (acc, ObjectPrototype)) = Inr r
     \<longleftrightarrow> (\<exists>xs. list_all2 (\<lambda>f x. fst (convertValue w env (snd f) b) = Inr x) fs xs
               \<and> r = (acc @ zip (map fst fs) xs, ObjectPrototype))"
proof (induction fs arbitrary: acc)
  case Nil
  show ?case by auto
next
  case (Cons f fs)
  obtain k v where f: "f = (k, v)" by (cases f)
  obtain o1 l1 where p1: "convertValue w env v b = (o1, l1)"
    by (cases "convertValue w env v b")
  show ?case
  proof (cases o1)
    case (Inl e)
    with p1 f show ?thesis by (auto simp: list_all2_Cons1)
  next
    case (Inr x)
    from Cons.prems f have fresh: "k \<notin> fst ` set acc" and plain: "k \<noteq> ''__proto__''"
      by auto
    from Cons.prems f have d: "distinct (map fst fs)"
      and np: "''__proto__'' \<notin> fst ` set fs"
      and disj: "fst ` set (acc @ [(k, x)]) \<inter> fst ` set fs = {}" by auto
    have step: "fst (convertFields w env (f # fs) b (acc, ObjectPrototype))
                = fst (convertFields w env fs b (acc @ [(k, x)], ObjectPrototype))"
      using p1 Inr f by (simp add: assign_plain [OF fresh plain] split: prod.splits)
    show ?thesis
      unfolding step Cons.IH [OF d np disj]
      using p1 Inr f by (auto simp: list_all2_Cons1)
  qed
qed

lemma convertObject_Inr_iff:
  "fst (convertValue w env (MapValue (ProtoMapValue (Some fs))) b) = Inr r
   \<longleftrightarrow> (\<exists>entries proto. r = DObject entries proto
         \<and> fst (convertFields w env fs b ([], ObjectPrototype)) = Inr (entries, proto))"
  by (cases "convertFields w env fs b ([], ObjectPrototype)")
     (auto split: sum.splits prod.splits)

text \<open>
  Two lists of entries with the same distinct keys in the same order: a relation holds
  between the values at every position exactly when it holds between the values under
  every key.
\<close>

lemma entries_pointwise:
  assumes "distinct (map fst fs)" "map fst obj = map fst fs"
  shows "(\<forall>i<length fs. P (snd (fs ! i)) (snd (obj ! i)))
         \<longleftrightarrow> (\<forall>(k, v)\<in>set fs. \<exists>x. map_of obj k = Some x \<and> P v x)"
proof -
  have len: "length obj = length fs" using assms(2) by (metis length_map)
  have dobj: "distinct (map fst obj)" using assms by simp
  have key: "fst (obj ! i) = fst (fs ! i)" if "i < length fs" for i
    using that assms(2) len by (metis nth_map)
  have look: "map_of obj (fst (fs ! i)) = Some (snd (obj ! i))" if "i < length fs" for i
  proof -
    have "obj ! i \<in> set obj" using that len by simp
    then have "(fst (fs ! i), snd (obj ! i)) \<in> set obj"
      using key [OF that] by (metis prod.collapse)
    then show ?thesis using dobj by simp
  qed
  show ?thesis
  proof
    assume L: "\<forall>i<length fs. P (snd (fs ! i)) (snd (obj ! i))"
    show "\<forall>(k, v)\<in>set fs. \<exists>x. map_of obj k = Some x \<and> P v x"
    proof (clarify)
      fix k v assume "(k, v) \<in> set fs"
      then obtain i where i: "i < length fs" "fs ! i = (k, v)"
        by (auto simp: in_set_conv_nth)
      then show "\<exists>x. map_of obj k = Some x \<and> P v x"
        using look [OF i(1)] L by auto
    qed
  next
    assume R: "\<forall>(k, v)\<in>set fs. \<exists>x. map_of obj k = Some x \<and> P v x"
    show "\<forall>i<length fs. P (snd (fs ! i)) (snd (obj ! i))"
    proof (intro allI impI)
      fix i assume i: "i < length fs"
      then have "(fst (fs ! i), snd (fs ! i)) \<in> set fs" by simp
      with R obtain x where "map_of obj (fst (fs ! i)) = Some x" "P (snd (fs ! i)) x"
        by blast
      then show "P (snd (fs ! i)) (snd (obj ! i))" using look [OF i] by simp
    qed
  qed
qed

text \<open>
  The fields \<open>fs\<close> of a map are the entries of an object, so their keys are distinct. When
  \<^verbatim>\<open>__proto__\<close> is not among them, decoding the map under a policy \<open>b\<close> yields \<open>r\<close> exactly
  when \<open>r\<close> is a record with the keys of \<open>fs\<close> (in the same order), in which every key of
  \<open>fs\<close> is bound to what decoding its field value, on its own and under the same policy,
  yields. A map whose field set is absent decodes to the empty record.
\<close>

lemma convertObject_fieldwise:
  assumes "distinct (map fst fs)" and "''__proto__'' \<notin> fst ` set fs"
  shows "(fst (convertValue w env (MapValue (ProtoMapValue (Some fs))) b) = Inr r
          \<longleftrightarrow> (\<exists>obj. r = DObject obj ObjectPrototype \<and> map fst obj = map fst fs
                  \<and> (\<forall>(k, v)\<in>set fs. \<exists>x. map_of obj k = Some x
                        \<and> fst (convertValue w env v b) = Inr x)))
         \<and> convertValue w env (MapValue (ProtoMapValue None)) b
             = (Inr (DObject [] ObjectPrototype), [])"
proof -
  have iff1: "fst (convertFields w env fs b ([], ObjectPrototype)) = Inr (obj, proto)
     \<longleftrightarrow> (\<exists>xs. list_all2 (\<lambda>f x. fst (convertValue w env (snd f) b) = Inr x) fs xs
               \<and> obj = zip (map fst fs) xs) \<and> proto = ObjectPrototype" for obj proto
    using convertFields_Inr_iff [OF assms, of "[]" w env b "(obj, proto)"] by auto
  have iff2: "(\<exists>xs. list_all2 (\<lambda>f x. fst (convertValue w env (snd f) b) = Inr x) fs xs
               \<and> obj = zip (map fst fs) xs)
     \<longleftrightarrow> (map fst obj = map fst fs
          \<and> (\<forall>i<length fs. fst (convertValue w env (snd (fs ! i)) b) = Inr (snd (obj ! i))))"
    for obj
  proof
    assume "\<exists>xs. list_all2 (\<lambda>f x. fst (convertValue w env (snd f) b) = Inr x) fs xs
               \<and> obj = zip (map fst fs) xs"
    then obtain xs where
      xs: "list_all2 (\<lambda>f x. fst (convertValue w env (snd f) b) = Inr x) fs xs"
        "obj = zip (map fst fs) xs" by blast
    then have len: "length xs = length fs" by (simp add: list_all2_lengthD)
    show "map fst obj = map fst fs
          \<and> (\<forall>i<length fs. fst (convertValue w env (snd (fs ! i)) b) = Inr (snd (obj ! i)))"
      using xs len by (auto simp: list_all2_conv_all_nth)
  next
    assume R: "map fst obj = map fst fs
          \<and> (\<forall>i<length fs. fst (convertValue w env (snd (fs ! i)) b) = Inr (snd (obj ! i)))"
    then have len: "length obj = length fs" by (metis length_map)
    have "obj = zip (map fst fs) (map snd obj)" using R by (metis zip_map_fst_snd)
    moreover
    have "list_all2 (\<lambda>f x. fst (convertValue w env (snd f) b) = Inr x) fs (map snd obj)"
      using R len by (auto simp: list_all2_conv_all_nth)
    ultimately
    show "\<exists>xs. list_all2 (\<lambda>f x. fst (convertValue w env (snd f) b) = Inr x) fs xs
               \<and> obj = zip (map fst fs) xs" by blast
  qed
  have iff3: "fst (convertFields w env fs b ([], ObjectPrototype)) = Inr (obj, proto)
     \<longleftrightarrow> (map fst obj = map fst fs
          \<and> (\<forall>(k, v)\<in>set fs. \<exists>x. map_of obj k = Some x
                        \<and> fst (convertValue w env v b) = Inr x)) \<and> proto = ObjectPrototype"
    for obj proto
    unfolding iff1 iff2
    using entries_pointwise
      [OF assms(1), of obj "\<lambda>v x. fst (convertValue w env v b) = Inr x"]
    by blast
  show ?thesis
    unfolding convertObject_Inr_iff iff3 by (auto simp: assign_def)
qed

lemma convertObject_fieldwise_example:
  "fst (convertValue (UserDataWriter exampleCollaborators exampleFirestore)
            exampleCollaborators
            (MapValue (ProtoMapValue (Some [(''a'', BooleanValue True),
                                            (''b'', ArrayValue (ProtoArrayValue None))])))
            estimate)
       = Inr (DObject [(''a'', DBoolean True), (''b'', DArray [])] ObjectPrototype)"
  by (simp add: assign_def)

text \<open>
  C8. The claim is that the record a map decodes to has exactly the keys of the map. The
  loop assigns \<^verbatim>\<open>result[key] = ...\<close> into an object that starts as \<^verbatim>\<open>{}\<close>, and for the key
  \<^verbatim>\<open>__proto__\<close> that assignment runs the setter of \<^verbatim>\<open>Object.prototype\<close> instead of creating
  a property: the map with the one field \<^verbatim>\<open>__proto__\<close> decodes to the record without any
  key, and beside another field the key \<^verbatim>\<open>__proto__\<close> is the one that is missing. (For
  every other set of keys the claim holds: \<open>convertObject_fieldwise\<close>.)
\<close>

theorem convertObject_proto_key:
  "convertValue w env (MapValue (ProtoMapValue (Some [(''__proto__'', StringValue ''x'')]))) b
     = (Inr (DObject [] ObjectPrototype), [])
   \<and> convertValue w env
        (MapValue (ProtoMapValue (Some [(''a'', BooleanValue True),
                                        (''__proto__'', StringValue ''x'')]))) b
     = (Inr (DObject [(''a'', DBoolean True)] ObjectPrototype), [])"
  by (simp add: assign_def)

subsection \<open>The policy\<close>

lemma convertValues_policy:
  "(\<And>v. v \<in> set vs \<Longrightarrow> convertValue w env v b = convertValue w env v b')
   \<Longrightarrow> convertValues w env vs b = convertValues w env vs b'"
proof (induction vs)
  case Nil
  show ?case by simp
next
  case (Cons v vs)
  have head: "convertValue w env v b = convertValue w env v b'"
    by (rule Cons.prems) simp
  have tail: "convertValues w env vs b = convertValues w env vs b'"
    by (rule Cons.IH, rule Cons.prems) simp
  show ?case unfolding convertValues.simps head tail by (rule refl)
qed

lemma convertFields_policy:
  "(\<And>k v. (k, v) \<in> set fs \<Longrightarrow> convertValue w env v b = convertValue w env v b')
   \<Longrightarrow> convertFields w env fs b acc = convertFields w env fs b' acc"
proof (induction fs arbitrary: acc)
  case Nil
  show ?case by simp
next
  case (Cons f fs)
  obtain k v where f: "f = (k, v)" by (cases f)
  have head: "convertValue w env v b = convertValue w env v b'"
    by (rule Cons.prems [of k v]) (simp add: f)
  have tail: "convertFields w env fs b acc' = convertFields w env fs b' acc'" for acc'
  proof (rule Cons.IH)
    fix k' v' assume "(k', v') \<in> set fs"
    then show "convertValue w env v' b = convertValue w env v' b'"
      using Cons.prems [of k' v'] by simp
  qed
  show ?case unfolding f convertFields.simps head tail by (rule refl)
qed

lemma policy_irrelevant:
  fixes v :: "'b Value" and st :: "'b ServerTimestamp"
    and a :: "'b ProtoArrayValue" and m :: "'b ProtoMapValue"
  shows "\<not> containsServerTimestamp v \<Longrightarrow>
           convertValue w env v b = convertValue w env v b'"
    and "True"
    and "\<not> containsServerTimestamp (ArrayValue a) \<Longrightarrow>
           convertArray w env a b = convertArray w env a b'"
    and "\<not> containsServerTimestamp (MapValue m) \<Longrightarrow>
           convertObject w env m b = convertObject w env m b'"
proof (induction v and st and a and m)
  case (ProtoArrayValue x)
  show ?case
  proof (cases x)
    case None
    then show ?thesis by simp
  next
    case (Some vs)
    have "convertValue w env u b = convertValue w env u b'" if "u \<in> set vs" for u
    proof (rule ProtoArrayValue.IH [of vs u])
      show "vs \<in> set_option x" using Some by simp
      show "u \<in> set vs" by (rule that)
      show "\<not> containsServerTimestamp u"
        using ProtoArrayValue.prems Some that by (simp add: list_ex_iff)
    qed
    then show ?thesis using Some convertValues_policy [of vs w env b b'] by simp
  qed
next
  case (ProtoMapValue x)
  show ?case
  proof (cases x)
    case None
    then show ?thesis by simp
  next
    case (Some fs)
    have "convertValue w env u b = convertValue w env u b'" if "(k, u) \<in> set fs" for k u
    proof (rule ProtoMapValue.IH [of fs "(k, u)" u])
      show "fs \<in> set_option x" using Some by simp
      show "(k, u) \<in> set fs" by (rule that)
      show "u \<in> Basic_BNFs.snds (k, u)" by simp
      show "\<not> containsServerTimestamp u"
        using ProtoMapValue.prems Some that by (auto simp: list_ex_iff)
    qed
    then show ?thesis using Some convertFields_policy [of fs w env b b' "([], ObjectPrototype)"] by simp
  qed
next
  case (ArrayValue x)
  then have "convertArray w env x b = convertArray w env x b'" by blast
  then show ?case by (simp only: convertValue.simps)
next
  case (MapValue x)
  then have "convertObject w env x b = convertObject w env x b'" by blast
  then show ?case by (simp only: convertValue.simps)
next
  case (ServerTimestampValue x)
  then show ?case by simp
next
  case (ServerTimestamp x1 x2)
  show ?case by simp
qed (simp_all only: convertValue.simps)

text \<open>
  C10. A value without a server timestamp wrapper anywhere in its tree decodes to the
  same outcome, with the same log, under the three policies.
\<close>

theorem convertValue_policy_independent:
  "\<not> containsServerTimestamp v \<Longrightarrow>
     convertValue w env v none = convertValue w env v estimate
   \<and> convertValue w env v estimate = convertValue w env v previous"
  using policy_irrelevant(1) [of v w env none estimate]
    policy_irrelevant(1) [of v w env estimate previous] by simp

theorem convertValue_policy_independent_witness:
  "\<not> containsServerTimestamp
       (ArrayValue (ProtoArrayValue (Some [StringValue ''x'',
          MapValue (ProtoMapValue (Some [(''k'', NullValue)]))])) :: string Value)
   \<and> convertValue (UserDataWriter exampleCollaborators exampleFirestore) exampleCollaborators
        (ArrayValue (ProtoArrayValue (Some [StringValue ''x'',
          MapValue (ProtoMapValue (Some [(''k'', NullValue)]))]))) none
     = convertValue (UserDataWriter exampleCollaborators exampleFirestore) exampleCollaborators
        (ArrayValue (ProtoArrayValue (Some [StringValue ''x'',
          MapValue (ProtoMapValue (Some [(''k'', NullValue)]))]))) previous
   \<and> convertValue (UserDataWriter exampleCollaborators exampleFirestore) exampleCollaborators
        (ArrayValue (ProtoArrayValue (Some [StringValue ''x'',
          MapValue (ProtoMapValue (Some [(''k'', NullValue)]))]))) previous
     = (Inr (DArray [DString ''x'', DObject [(''k'', DNull)] ObjectPrototype]), [])"
proof -
  have h: "\<not> containsServerTimestamp
       (ArrayValue (ProtoArrayValue (Some [StringValue ''x'',
          MapValue (ProtoMapValue (Some [(''k'', NullValue)]))])) :: string Value)"
    by simp
  show ?thesis
    using h convertValue_policy_independent
      [OF h, of "UserDataWriter exampleCollaborators exampleFirestore" exampleCollaborators]
    by (simp add: assign_def)
qed

subsection \<open>Numbers\<close>

text \<open>
  The number case hands \<^verbatim>\<open>value.integerValue || value.doubleValue\<close> to
  \<^verbatim>\<open>normalizeNumber\<close>. A double payload, and an integer payload that is truthy, is the
  payload that is normalised; for an integer payload that is falsy (the number zero, the
  empty string) the absent double payload is.
\<close>

lemma convertValue_double:
  "convertValue w env (DoubleValue p) b = (Inr (DNumber (normalizeNumber env (Some p))), [])"
  by (simp add: js_or_def)

lemma convertValue_integer_truthy:
  "truthy (Some p) \<Longrightarrow>
     convertValue w env (IntegerValue p) b = (Inr (DNumber (normalizeNumber env (Some p))), [])"
  by (simp add: js_or_def)

lemma convertValue_integer_falsy:
  "\<not> truthy (Some p) \<Longrightarrow>
     convertValue w env (IntegerValue p) b = (Inr (DNumber (normalizeNumber env None)), [])"
  by (simp add: js_or_def)

text \<open>
  C6. \<^verbatim>\<open>normalizeNumber\<close> is not among the sources: the theorem takes from it that it
  returns a number as it is and returns zero for an absent payload. Then every number
  decodes to itself, from the integer as from the double variant, and so the integer zero
  decodes to the integer zero (the absent double payload, which the code hands over in
  that one case, normalises to the same zero); an integer payload that is a string (not
  the empty one) and every double payload decode to what \<^verbatim>\<open>normalizeNumber\<close> makes of that
  payload.
\<close>

theorem convertValue_number:
  assumes absent: "normalizeNumber env None = Finite 0"
      and number: "\<And>n. normalizeNumber env (Some (JNumber n)) = n"
  shows "convertValue w env (IntegerValue (JNumber (Finite x))) b = (Inr (DNumber (Finite x)), [])
       \<and> convertValue w env (IntegerValue (JNumber (Finite 0))) b
           = (Inr (DNumber (Finite 0)), [])
       \<and> (s \<noteq> [] \<longrightarrow> convertValue w env (IntegerValue (JString s)) b
                        = (Inr (DNumber (normalizeNumber env (Some (JString s)))), []))
       \<and> convertValue w env (DoubleValue (JNumber n)) b = (Inr (DNumber n), [])
       \<and> convertValue w env (DoubleValue p) b
           = (Inr (DNumber (normalizeNumber env (Some p))), [])"
proof -
  have finite: "convertValue w env (IntegerValue (JNumber (Finite y))) b
                  = (Inr (DNumber (Finite y)), [])" for y
  proof (cases "y = 0")
    case True
    then have "\<not> truthy (Some (JNumber (Finite y)))" by simp
    then show ?thesis
      using convertValue_integer_falsy [of "JNumber (Finite y)" w env b] absent True by simp
  next
    case False
    then have "truthy (Some (JNumber (Finite y)))" by simp
    then show ?thesis
      using convertValue_integer_truthy [of "JNumber (Finite y)" w env b] number by simp
  qed
  have string: "s \<noteq> [] \<longrightarrow> convertValue w env (IntegerValue (JString s)) b
                        = (Inr (DNumber (normalizeNumber env (Some (JString s)))), [])"
    using convertValue_integer_truthy [of "JString s" w env b] by simp
  have double: "convertValue w env (DoubleValue (JNumber n)) b = (Inr (DNumber n), [])"
    by (simp add: js_or_def number)
  have payload: "convertValue w env (DoubleValue p) b
                   = (Inr (DNumber (normalizeNumber env (Some p))), [])"
    by (rule convertValue_double)
  show ?thesis
    using finite [of x] finite [of 0] string double payload by blast
qed

theorem convertValue_number_witness:
  "normalizeNumber exampleCollaborators None = Finite 0
   \<and> (\<forall>n. normalizeNumber exampleCollaborators (Some (JNumber n)) = n)
   \<and> convertValue (UserDataWriter exampleCollaborators exampleFirestore) exampleCollaborators
        (IntegerValue (JNumber (Finite 0))) none = (Inr (DNumber (Finite 0)), [])
   \<and> convertValue (UserDataWriter exampleCollaborators exampleFirestore) exampleCollaborators
        (IntegerValue (JNumber (Finite 7))) none = (Inr (DNumber (Finite 7)), [])
   \<and> convertValue (UserDataWriter exampleCollaborators exampleFirestore) exampleCollaborators
        (IntegerValue (JString ''42'')) none = (Inr (DNumber (Finite 42)), [])
   \<and> convertValue (UserDataWriter exampleCollaborators exampleFirestore) exampleCollaborators
        (DoubleValue (JNumber (Finite (3 / 2)))) none = (Inr (DNumber (Finite (3 / 2))), [])"
proof -
  have absent: "normalizeNumber exampleCollaborators None = Finite 0"
    by (simp add: exampleCollaborators_def)
  have number: "normalizeNumber exampleCollaborators (Some (JNumber n)) = n" for n
    by (simp add: exampleCollaborators_def)
  have parsed: "normalizeNumber exampleCollaborators (Some (JString ''42'')) = Finite 42"
    by (simp add: exampleCollaborators_def digitValue_def)
  show ?thesis
    using absent number parsed
      convertValue_number
        [OF absent number, of "UserDataWriter exampleCollaborators exampleFirestore" 7 none
           "''42''" "Finite (3 / 2)" "JNumber (Finite (3 / 2))"]
    by simp
qed

subsection \<open>References\<close>

text \<open>
  C1. When the name of a reference value parses into a path \<open>p\<close> that is a valid resource
  name, \<^verbatim>\<open>convertDocumentKey\<close> returns the key of the path \<open>p\<close> without its first five
  segments and does not fail, whatever the expected database identity. It logs nothing when
  the identity read at the segments 1 and 3 of \<open>p\<close> equals the expected one, and otherwise
  logs exactly one message, which names the document, the identity found and the expected
  identity. Decoding the reference value with each of the three writers returns the
  writer's reference handle for that key, with the same log.
\<close>

theorem convertDocumentKey_valid_name:
  assumes "fromString env name = Inr p" and "isValidResourceName env p"
  shows "convertDocumentKey env name expected =
           (Inr (DocumentKey (drop 5 p)),
            if isEqual \<lparr>projectId = get p 1, database = get p 3\<rparr> expected then []
            else [''Document '' @ canonicalString (drop 5 p) @
                  '' contains a document reference within a different database ('' @
                  template (get p 1) @ ''/'' @ template (get p 3) @
                  '') which is not supported. It will be treated as a reference in the current database ('' @
                  template (projectId expected) @ ''/'' @ template (database expected) @
                  '') instead.''])
         \<and> convertValue (UserDataWriter env fs) env' (ReferenceValue name) b =
             (Inr (DReference (DocumentReference (DocumentKey (drop 5 p)) fs None)),
              snd (convertDocumentKey env name (databaseId fs)))
         \<and> convertValue (ExpUserDataWriter env fs) env' (ReferenceValue name) b =
             (Inr (DReference (ExpDocumentReference fs None (DocumentKey (drop 5 p)))),
              snd (convertDocumentKey env name (databaseId fs)))
         \<and> convertValue (LiteUserDataWriter env fs) env' (ReferenceValue name) b =
             (Inr (DReference (LiteDocumentReference fs None (DocumentKey (drop 5 p)))),
              snd (convertDocumentKey env name (databaseId fs)))"
proof -
  have key: "convertDocumentKey env name e =
           (Inr (DocumentKey (drop 5 p)),
            if isEqual \<lparr>projectId = get p 1, database = get p 3\<rparr> e then []
            else [''Document '' @ canonicalString (drop 5 p) @
                  '' contains a document reference within a different database ('' @
                  template (get p 1) @ ''/'' @ template (get p 3) @
                  '') which is not supported. It will be treated as a reference in the current database ('' @
                  template (projectId e) @ ''/'' @ template (database e) @
                  '') instead.''])" for e
    using assms by (simp add: convertDocumentKey_def popFirst_def Let_def)
  have ref: "convertReferenceWith mk env fs name =
      (Inr (mk (DocumentKey (drop 5 p))), snd (convertDocumentKey env name (databaseId fs)))"
    for mk
    by (simp add: convertReferenceWith_def key [of "databaseId fs"])
  show ?thesis
    unfolding key [of expected]
    by (simp add: UserDataWriter_def ExpUserDataWriter_def LiteUserDataWriter_def ref)
qed

theorem convertDocumentKey_valid_name_witness:
  "fromString exampleCollaborators ''projects/P/databases/D/documents/coll/doc''
     = Inr [''projects'', ''P'', ''databases'', ''D'', ''documents'', ''coll'', ''doc'']
   \<and> isValidResourceName exampleCollaborators
        [''projects'', ''P'', ''databases'', ''D'', ''documents'', ''coll'', ''doc'']
   \<and> convertDocumentKey exampleCollaborators ''projects/P/databases/D/documents/coll/doc''
        \<lparr>projectId = Some ''P'', database = Some ''D''\<rparr>
       = (Inr (DocumentKey [''coll'', ''doc'']), [])
   \<and> convertDocumentKey exampleCollaborators ''projects/P/databases/D/documents/coll/doc''
        \<lparr>projectId = Some ''P'', database = Some ''D2''\<rparr>
       = (Inr (DocumentKey [''coll'', ''doc'']),
          [''Document coll/doc contains a document reference within a different database (P/D) which is not supported. It will be treated as a reference in the current database (P/D2) instead.''])"
proof -
  have parsed: "fromString exampleCollaborators ''projects/P/databases/D/documents/coll/doc''
     = Inr [''projects'', ''P'', ''databases'', ''D'', ''documents'', ''coll'', ''doc'']"
    by (simp add: exampleCollaborators_def)
  have valid: "isValidResourceName exampleCollaborators
        [''projects'', ''P'', ''databases'', ''D'', ''documents'', ''coll'', ''doc'']"
    by (simp add: exampleCollaborators_def isDocumentResourceName_def)
  show ?thesis
    using parsed valid
      convertDocumentKey_valid_name
        [OF parsed valid, of "\<lparr>projectId = Some ''P'', database = Some ''D''\<rparr>"]
      convertDocumentKey_valid_name
        [OF parsed valid, of "\<lparr>projectId = Some ''P'', database = Some ''D2''\<rparr>"]
    by (simp add: get_def isEqual_def)
qed

subsection \<open>Faults\<close>

text \<open>A fault of an element or of a field value ends the loop with that fault.\<close>

lemma convertValues_fault:
  "v \<in> set vs \<Longrightarrow> isl (fst (convertValue w env v b)) \<Longrightarrow> isl (fst (convertValues w env vs b))"
proof (induction vs)
  case Nil
  then show ?case by simp
next
  case (Cons u us)
  show ?case
  proof (cases "convertValue w env u b")
    case (Pair o1 l1)
    note p1 = this
    show ?thesis
    proof (cases o1)
      case (Inl e)
      with p1 show ?thesis by simp
    next
      case (Inr x)
      with p1 Cons.prems have "v \<in> set us" by auto
      then have "isl (fst (convertValues w env us b))" using Cons.IH Cons.prems(2) by simp
      with p1 Inr show ?thesis by (auto split: prod.splits sum.splits)
    qed
  qed
qed

lemma convertFields_fault:
  "(k, v) \<in> set fs \<Longrightarrow> isl (fst (convertValue w env v b))
   \<Longrightarrow> isl (fst (convertFields w env fs b acc))"
proof (induction fs arbitrary: acc)
  case Nil
  then show ?case by simp
next
  case (Cons f fs)
  obtain k' u where f: "f = (k', u)" by (cases f)
  show ?case
  proof (cases "convertValue w env u b")
    case (Pair o1 l1)
    note p1 = this
    show ?thesis
    proof (cases o1)
      case (Inl e)
      with p1 f show ?thesis by simp
    next
      case (Inr x)
      with p1 f Cons.prems have rest: "(k, v) \<in> set fs" by auto
      show ?thesis
      proof (cases "assign env k' x acc")
        case (Inl e)
        with p1 Inr f show ?thesis by simp
      next
        case (Inr acc')
        have "isl (fst (convertFields w env fs b acc'))"
          using Cons.IH [OF rest Cons.prems(2)] .
        with p1 \<open>o1 = Inr x\<close> Inr f show ?thesis by (auto split: prod.splits)
      qed
    qed
  qed
qed

text \<open>
  C2. A value without a recognized type tag aborts the decoding with a fault. With each
  of the three writers, a reference value whose name the parser rejects, or whose path is
  not a valid resource name, aborts the decoding with a fault. An array with an element
  that faults and a map with a field value that faults abort with a fault: no sequence or
  record of the parts decoded so far is returned. The outcome of a decoding is either a
  fault or a decoded value.
\<close>

theorem convertValue_faults:
  "convertValue w env InvalidValue b
     = (Inl (Fail (''Invalid value type: '' @ stringify env InvalidValue)), [])
   \<and> (\<forall>wr \<in> {UserDataWriter env fs, ExpUserDataWriter env fs, LiteUserDataWriter env fs}.
        (fromString env name = Inl e \<longrightarrow>
           convertValue wr env' (ReferenceValue name) b = (Inl e, []))
      \<and> (fromString env name = Inr p \<and> \<not> isValidResourceName env p \<longrightarrow>
           convertValue wr env' (ReferenceValue name) b
             = (Inl (Fail (''ReferenceValue is not valid '' @ name)), [])))
   \<and> (v \<in> set vs \<and> isl (fst (convertValue w env v b)) \<longrightarrow>
        isl (fst (convertValue w env (ArrayValue (ProtoArrayValue (Some vs))) b)))
   \<and> ((k, v) \<in> set fds \<and> isl (fst (convertValue w env v b)) \<longrightarrow>
        isl (fst (convertValue w env (MapValue (ProtoMapValue (Some fds))) b)))
   \<and> ((\<exists>f. fst (convertValue w env u b) = Inl f) \<or> (\<exists>d. fst (convertValue w env u b) = Inr d))"
proof -
  have key1: "fromString env name = Inl e \<Longrightarrow> convertDocumentKey env name d = (Inl e, [])" for d
    by (simp add: convertDocumentKey_def)
  have key2: "fromString env name = Inr p \<Longrightarrow> \<not> isValidResourceName env p \<Longrightarrow>
      convertDocumentKey env name d = (Inl (Fail (''ReferenceValue is not valid '' @ name)), [])" for d
    by (simp add: convertDocumentKey_def)
  have refs: "\<forall>wr \<in> {UserDataWriter env fs, ExpUserDataWriter env fs, LiteUserDataWriter env fs}.
        (fromString env name = Inl e \<longrightarrow>
           convertValue wr env' (ReferenceValue name) b = (Inl e, []))
      \<and> (fromString env name = Inr p \<and> \<not> isValidResourceName env p \<longrightarrow>
           convertValue wr env' (ReferenceValue name) b
             = (Inl (Fail (''ReferenceValue is not valid '' @ name)), []))"
    using key1 key2
    by (simp add: UserDataWriter_def ExpUserDataWriter_def LiteUserDataWriter_def
        convertReferenceWith_def)
  have arr: "v \<in> set vs \<and> isl (fst (convertValue w env v b)) \<longrightarrow>
        isl (fst (convertValue w env (ArrayValue (ProtoArrayValue (Some vs))) b))"
    using convertValues_fault [of v vs w env b]
    by (cases "convertValues w env vs b") (auto split: sum.splits)
  have obj: "(k, v) \<in> set fds \<and> isl (fst (convertValue w env v b)) \<longrightarrow>
        isl (fst (convertValue w env (MapValue (ProtoMapValue (Some fds))) b))"
    using convertFields_fault [of k v fds w env b "([], ObjectPrototype)"]
    by (cases "convertFields w env fds b ([], ObjectPrototype)") (auto split: sum.splits)
  have total: "(\<exists>f. fst (convertValue w env u b) = Inl f)
      \<or> (\<exists>d. fst (convertValue w env u b) = Inr d)"
    by (cases "fst (convertValue w env u b)") simp_all
  show ?thesis using refs arr obj total by simp
qed


theorem convertValue_faults_witness:
  "fromString exampleCollaborators ''projects/P/databases/D/coll/doc''
     = Inr [''projects'', ''P'', ''databases'', ''D'', ''coll'', ''doc'']
   \<and> \<not> isValidResourceName exampleCollaborators
          [''projects'', ''P'', ''databases'', ''D'', ''coll'', ''doc'']
   \<and> convertValue (LiteUserDataWriter exampleCollaborators exampleFirestore)
        exampleCollaborators (ReferenceValue ''projects/P/databases/D/coll/doc'') none
       = (Inl (Fail ''ReferenceValue is not valid projects/P/databases/D/coll/doc''), [])
   \<and> isl (fst (convertValue (LiteUserDataWriter exampleCollaborators exampleFirestore)
                 exampleCollaborators InvalidValue none))
   \<and> isl (fst (convertValue (LiteUserDataWriter exampleCollaborators exampleFirestore)
                 exampleCollaborators
                 (ArrayValue (ProtoArrayValue (Some [NullValue, InvalidValue]))) none))
   \<and> isl (fst (convertValue (LiteUserDataWriter exampleCollaborators exampleFirestore)
                 exampleCollaborators
                 (MapValue (ProtoMapValue (Some [(''a'', NullValue), (''b'', InvalidValue)])))
                 none))"
proof -
  have parsed: "fromString exampleCollaborators ''projects/P/databases/D/coll/doc''
     = Inr [''projects'', ''P'', ''databases'', ''D'', ''coll'', ''doc'']"
    by (simp add: exampleCollaborators_def)
  have invalid: "\<not> isValidResourceName exampleCollaborators
          [''projects'', ''P'', ''databases'', ''D'', ''coll'', ''doc'']"
    by (simp add: exampleCollaborators_def isDocumentResourceName_def)
  have element: "InvalidValue \<in> set [NullValue, InvalidValue :: string Value]"
    by simp
  have entry: "(''b'', InvalidValue)
      \<in> set [(''a'', NullValue), (''b'', InvalidValue :: string Value)]"
    by simp
  have faulty: "isl (fst (convertValue (LiteUserDataWriter exampleCollaborators exampleFirestore)
                 exampleCollaborators InvalidValue none))"
    by simp
  show ?thesis
    using parsed invalid element entry faulty
      convertValue_faults
        [where w = "LiteUserDataWriter exampleCollaborators exampleFirestore"
           and env = exampleCollaborators and env' = exampleCollaborators
           and fs = exampleFirestore and b = none
           and name = "''projects/P/databases/D/coll/doc''"
           and p = "[''projects'', ''P'', ''databases'', ''D'', ''coll'', ''doc'']"
           and v = InvalidValue and vs = "[NullValue, InvalidValue]"
           and k = "''b''" and fds = "[(''a'', NullValue), (''b'', InvalidValue)]"]
    by simp
qed

end
